theory Spec2Isabelle
  imports Main
begin

section \<open>Python values\<close>

text \<open>
  The values that flow through \<^verbatim>\<open>src/app.py\<close>: JSON documents received from the
  data service, the claim dictionaries handed to and returned by the JWT library, and the
  dictionaries the endpoints return. A dictionary is an association list; a key is looked
  up at its first occurrence. \<open>PDateTime\<close> is a naive local \<^verbatim>\<open>datetime\<close>, kept as
  the whole second it denotes. Floating point numbers are not modelled.
\<close>

datatype pyval =
    PNone
  | PBool bool
  | PInt int
  | PStr string
  | PDateTime int
  | PList "pyval list"
  | PDict "(string \<times> pyval) list"

type_synonym pydict = "(string \<times> pyval) list"

text \<open>Python's truth value of an object, as tested by \<^verbatim>\<open>if not x\<close>.\<close>

fun truthy :: "pyval \<Rightarrow> bool" where
  "truthy PNone = False"
| "truthy (PBool b) = b"
| "truthy (PInt n) = (n \<noteq> 0)"
| "truthy (PStr s) = (s \<noteq> [])"
| "truthy (PDateTime t) = True"
| "truthy (PList xs) = (xs \<noteq> [])"
| "truthy (PDict kvs) = (kvs \<noteq> [])"

text \<open>The exceptions that are not \<^verbatim>\<open>HTTPException\<close>, by class.\<close>

datatype pyexc =
    JWTError
  | RequestException
  | JSONDecodeError
  | KeyError
  | TypeError
  | AttributeError
  | ValueError
  | OverflowError
  | OtherException

text \<open>
  What an endpoint raises: an \<^verbatim>\<open>HTTPException\<close> with its status code, detail and
  headers, which the framework turns into the response, or any other exception, which
  leaves the handler unhandled.
\<close>

datatype failure =
    HTTPException nat string "(string \<times> string) list"
  | Raised pyexc

text \<open>\<^verbatim>\<open>d.get(k)\<close> on a dictionary: \<^verbatim>\<open>None\<close> when the key is missing.\<close>

definition dict_get :: "pydict \<Rightarrow> string \<Rightarrow> pyval" where
  "dict_get d k = (case map_of d k of None \<Rightarrow> PNone | Some v \<Rightarrow> v)"

text \<open>\<^verbatim>\<open>d.update({k: v})\<close>: an existing key keeps its place and gets the new value.\<close>

fun dict_update :: "string \<Rightarrow> pyval \<Rightarrow> pydict \<Rightarrow> pydict" where
  "dict_update k v [] = [(k, v)]"
| "dict_update k v ((k', v') # d) =
     (if k' = k then (k, v) # d else (k', v') # dict_update k v d)"

text \<open>
  \<^verbatim>\<open>x[k]\<close> with a string key: \<^verbatim>\<open>KeyError\<close> on a dictionary without the key,
  \<^verbatim>\<open>TypeError\<close> on every other value.
\<close>

fun subscript :: "pyval \<Rightarrow> string \<Rightarrow> pyexc + pyval" where
  "subscript (PDict d) k = (case map_of d k of None \<Rightarrow> Inl KeyError | Some v \<Rightarrow> Inr v)"
| "subscript x k = Inl TypeError"

text \<open>\<^verbatim>\<open>x.get(k)\<close>: only a dictionary has the method.\<close>

fun method_get :: "pyval \<Rightarrow> string \<Rightarrow> pyexc + pyval" where
  "method_get (PDict d) k = Inr (dict_get d k)"
| "method_get x k = Inl AttributeError"

section \<open>The environment of a request\<close>

text \<open>
  The handlers talk to the data service through \<^verbatim>\<open>requests\<close>; a call is its method,
  URL and JSON body. A response is its \<^verbatim>\<open>ok\<close> flag and the value of
  \<^verbatim>\<open>response.json()\<close>, \<open>None\<close> when the body is not JSON.
\<close>

datatype request =
    GET string pyval
  | POST string pyval
  | DELETE string pyval

record http_response =
  ok :: bool
  json :: "pyval option"

text \<open>
  Everything a handler reads from outside its arguments. The libraries are parameters:
  \<^item> \<open>now\<close>: the clock, \<^verbatim>\<open>datetime.now()\<close>, in whole seconds;
  \<^item> \<open>fromtimestamp_raises\<close>: the exception \<^verbatim>\<open>datetime.fromtimestamp\<close> raises on a
    number outside the platform's range, \<open>None\<close> inside it;
  \<^item> \<open>jwt_decode token algorithms\<close>: \<^verbatim>\<open>jwt.decode(token, key=SECRET_KEY, algorithms=...)\<close>
    of python-jose with the process's secret;
  \<^item> \<open>jwt_encode claims\<close>: \<^verbatim>\<open>jwt.encode(claims, key=SECRET_KEY, algorithm=ALGORITHM)\<close>;
  \<^item> \<open>pwd_verify plain hashed\<close>: \<^verbatim>\<open>pwd_context.verify(plain, hashed)\<close> of passlib;
  \<^item> \<open>requests\<close>: the data service's answer to a call, or the exception the call raises;
  \<^item> \<open>service_name\<close>: \<^verbatim>\<open>config.service_name\<close>.
\<close>

record env =
  now :: int
  fromtimestamp_raises :: "int \<Rightarrow> pyexc option"
  jwt_decode :: "string \<Rightarrow> pyval \<Rightarrow> pyexc + pydict"
  jwt_encode :: "pydict \<Rightarrow> pyexc + string"
  pwd_verify :: "string \<Rightarrow> pyval \<Rightarrow> pyexc + bool"
  requests :: "request \<Rightarrow> pyexc + http_response"
  service_name :: string

definition LOCAL_API_URL :: string where
  "LOCAL_API_URL = ''http://web:8000''"

definition ALGORITHM :: string where
  "ALGORITHM = ''HS256''"

definition ACCESS_TOKEN_EXPIRE_DAYS :: int where
  "ACCESS_TOKEN_EXPIRE_DAYS = 7"

text \<open>\<^verbatim>\<open>timedelta(days=n)\<close>, in seconds.\<close>

definition timedelta_days :: "int \<Rightarrow> int" where
  "timedelta_days n = n * 86400"

text \<open>
  \<^verbatim>\<open>datetime.fromtimestamp(x)\<close>: a number (a \<^verbatim>\<open>bool\<close> is one) inside the
  platform's range gives the local datetime of that second; any other value is a
  \<^verbatim>\<open>TypeError\<close>.
\<close>

fun fromtimestamp :: "env \<Rightarrow> pyval \<Rightarrow> pyexc + int" where
  "fromtimestamp env (PInt n) =
     (case fromtimestamp_raises env n of Some e \<Rightarrow> Inl e | None \<Rightarrow> Inr n)"
| "fromtimestamp env (PBool b) =
     (case fromtimestamp_raises env (if b then 1 else 0) of
        Some e \<Rightarrow> Inl e
      | None \<Rightarrow> Inr (if b then 1 else 0))"
| "fromtimestamp env x = Inl TypeError"

section \<open>Helper functions of app.py\<close>

text \<open>\<^verbatim>\<open>verify_password\<close> (lines 34-35).\<close>

definition verify_password :: "env \<Rightarrow> string \<Rightarrow> pyval \<Rightarrow> pyexc + bool" where
  "verify_password env plain_password hashed_password =
     pwd_verify env plain_password hashed_password"

text \<open>
  \<^verbatim>\<open>create_access_token\<close> (lines 42-55): the expiry is added to a copy of the data and
  the result is encoded; any exception gives \<^verbatim>\<open>False\<close>. A \<^verbatim>\<open>timedelta\<close> of zero
  is falsy, so it selects the default.
\<close>

definition create_access_token :: "env \<Rightarrow> pydict \<Rightarrow> int option \<Rightarrow> pyval" where
  "create_access_token env data expires_delta =
     (let expire =
        (case expires_delta of
           None \<Rightarrow> now env + timedelta_days ACCESS_TOKEN_EXPIRE_DAYS
         | Some d \<Rightarrow>
             if d \<noteq> 0 then now env + d
             else now env + timedelta_days ACCESS_TOKEN_EXPIRE_DAYS);
        to_encode = dict_update ''exp'' (PDateTime expire) data
      in case jwt_encode env to_encode of
           Inl e \<Rightarrow> PBool False
         | Inr encode_jwt \<Rightarrow> PStr encode_jwt)"

text \<open>\<^verbatim>\<open>update_token_in_DB\<close> (lines 58-83): the call it makes, and its result.\<close>

definition update_request :: "env \<Rightarrow> string \<Rightarrow> pyval \<Rightarrow> request" where
  "update_request env username access_token =
     POST (LOCAL_API_URL @ ''/token/update'')
       (PDict [(''micro_name'', PDict [(''name'', PStr (service_name env))]),
               (''token_data'', PDict [(''login'', PStr username),
                                       (''jwt_token'', access_token)])])"

definition update_token_in_DB :: "env \<Rightarrow> string \<Rightarrow> pyval \<Rightarrow> bool" where
  "update_token_in_DB env username access_token =
     (case requests env (update_request env username access_token) of
        Inl e \<Rightarrow> False
      | Inr response \<Rightarrow> ok response)"

text \<open>
  \<^verbatim>\<open>get_user\<close> (lines 86-115): the call it makes, and its result, \<^verbatim>\<open>None\<close> on a
  failed call, a response that is not ok, a body that is not a JSON object, and a
  missing or falsy \<^verbatim>\<open>data\<close>.
\<close>

definition get_user_request :: "env \<Rightarrow> string \<Rightarrow> request" where
  "get_user_request env username =
     GET (LOCAL_API_URL @ ''/data/'' @ username) (PDict [(''name'', PStr (service_name env))])"

definition get_user :: "env \<Rightarrow> string \<Rightarrow> pyval" where
  "get_user env username =
     (case requests env (get_user_request env username) of
        Inl e \<Rightarrow> PNone
      | Inr response \<Rightarrow>
          if \<not> ok response then PNone
          else (case json response of
                  None \<Rightarrow> PNone
                | Some response_json \<Rightarrow>
                    (case method_get response_json ''data'' of
                       Inl e \<Rightarrow> PNone
                     | Inr data \<Rightarrow> if \<not> truthy data then PNone else data)))"

section \<open>The endpoints\<close>

text \<open>
  An endpoint's outcome is what it returns or raises, together with the calls it made to
  the data service, in order. The request models of \<^verbatim>\<open>src/models.py\<close> have string
  fields only; an endpoint takes them as arguments.
\<close>

type_synonym outcome = "(failure + pyval) \<times> request list"

text \<open>
  The claims dictionary both login endpoints build, \<^verbatim>\<open>{"sub": user["login"], "ngy":
  user["agency_id"]}\<close>, evaluated left to right.
\<close>

definition login_claims :: "pyval \<Rightarrow> pyexc + pydict" where
  "login_claims user =
     (case subscript user ''login'' of
        Inl e \<Rightarrow> Inl e
      | Inr login_name \<Rightarrow>
          (case subscript user ''agency_id'' of
             Inl e \<Rightarrow> Inl e
           | Inr agency_id \<Rightarrow> Inr [(''sub'', login_name), (''ngy'', agency_id)]))"

definition token_body :: "pyval \<Rightarrow> pyval" where
  "token_body access_token =
     PDict [(''access_token'', access_token), (''token_type'', PStr ''bearer'')]"

text \<open>\<^verbatim>\<open>POST /login\<close> (lines 119-152).\<close>

definition login :: "env \<Rightarrow> string \<Rightarrow> string \<Rightarrow> outcome" where
  "login env username password =
     (let user = get_user env username; sent = [get_user_request env username] in
      if \<not> truthy user then (Inl (HTTPException 401 ''User not found'' []), sent)
      else case subscript user ''password'' of
        Inl e \<Rightarrow> (Inl (Raised e), sent)
      | Inr hashed \<Rightarrow>
         (case verify_password env password hashed of
            Inl e \<Rightarrow> (Inl (Raised e), sent)
          | Inr matches \<Rightarrow>
             if \<not> matches then (Inl (HTTPException 401 ''Incorrect password'' []), sent)
             else
              (case login_claims user of
                 Inl e \<Rightarrow> (Inl (Raised e), sent)
               | Inr data \<Rightarrow>
                  (let access_token =
                     create_access_token env data
                       (Some (timedelta_days ACCESS_TOKEN_EXPIRE_DAYS)) in
                   if \<not> truthy access_token
                   then (Inl (HTTPException 500 ''Failed to create access token'' []), sent)
                   else if \<not> update_token_in_DB env username access_token
                   then (Inl (HTTPException 500 ''Failed to update token in database'' []),
                         sent @ [update_request env username access_token])
                   else (Inr (token_body access_token),
                         sent @ [update_request env username access_token])))))"

text \<open>\<^verbatim>\<open>POST /token/create\<close> (lines 155-181).\<close>

definition login_for_access_token :: "env \<Rightarrow> string \<Rightarrow> string \<Rightarrow> outcome" where
  "login_for_access_token env username password =
     (let user = get_user env username; sent = [get_user_request env username];
          bad_credentials =
            HTTPException 401 ''Incorrect username or password''
              [(''WWW-Authenticate'', ''Bearer'')] in
      if \<not> truthy user then (Inl bad_credentials, sent)
      else case subscript user ''password'' of
        Inl e \<Rightarrow> (Inl (Raised e), sent)
      | Inr hashed \<Rightarrow>
         (case verify_password env password hashed of
            Inl e \<Rightarrow> (Inl (Raised e), sent)
          | Inr matches \<Rightarrow>
             if \<not> matches then (Inl bad_credentials, sent)
             else
              (case login_claims user of
                 Inl e \<Rightarrow> (Inl (Raised e), sent)
               | Inr data \<Rightarrow>
                  (let access_token =
                     create_access_token env data
                       (Some (timedelta_days ACCESS_TOKEN_EXPIRE_DAYS)) in
                   if \<not> truthy access_token
                   then (Inl (HTTPException 400 ''Token creation error'' []), sent)
                   else if update_token_in_DB env username access_token
                   then (Inr (token_body access_token),
                         sent @ [update_request env username access_token])
                   else (Inl (HTTPException 400 ''Token update in DB error'' []),
                         sent @ [update_request env username access_token])))))"

text \<open>
  \<^verbatim>\<open>POST /token/verify\<close> (lines 184-236): the body of the \<^verbatim>\<open>try\<close> first. The
  comparison of the two naive local datetimes is the comparison of their seconds.
\<close>

definition verify_token_body :: "env \<Rightarrow> string \<Rightarrow> string \<Rightarrow> outcome" where
  "verify_token_body env req_username token =
     (case jwt_decode env token (PList [PStr ALGORITHM]) of
        Inl e \<Rightarrow> (Inl (Raised e), [])
      | Inr payload \<Rightarrow>
         (let username = dict_get payload ''sub'' in
          if \<not> truthy username
          then (Inl (HTTPException 400 ''Invalid token: missing username'' []), [])
          else let exp_timestamp = dict_get payload ''exp'' in
          if \<not> truthy exp_timestamp
          then (Inl (HTTPException 400 ''Invalid token: missing expiration'' []), [])
          else case fromtimestamp env exp_timestamp of
            Inl e \<Rightarrow> (Inl (Raised e), [])
          | Inr exp_datetime \<Rightarrow>
             if now env \<ge> exp_datetime
             then (Inl (HTTPException 401 ''Token has expired'' []), [])
             else let agency_id = dict_get payload ''ngy'' in
             if \<not> truthy agency_id
             then (Inl (HTTPException 400 ''Invalid token: missing expiration'' []), [])
             else let user = get_user env req_username;
                      sent = [get_user_request env req_username] in
             if \<not> truthy user
             then (Inl (HTTPException 404 ''User not found'' []), sent)
             else
              (case method_get user ''jwt_token'' of
                 Inl e \<Rightarrow> (Inl (Raised e), sent)
               | Inr stored_token \<Rightarrow>
                  if stored_token \<noteq> PStr token
                  then (Inl (HTTPException 401
                               ''Invalid token: does not match stored token'' []), sent)
                  else (Inr (PDict [(''valid'', PBool True), (''user_id'', username),
                                    (''agency_id'', agency_id)]), sent))))"

text \<open>The handler \<^verbatim>\<open>except JWTError\<close> (lines 233-236) around it.\<close>

definition verify_token :: "env \<Rightarrow> string \<Rightarrow> string \<Rightarrow> outcome" where
  "verify_token env req_username token =
     (case verify_token_body env req_username token of
        (Inl (Raised JWTError), sent) \<Rightarrow>
          (Inl (HTTPException 400 ''Invalid token format'' []), sent)
      | other \<Rightarrow> other)"

text \<open>\<^verbatim>\<open>POST /token/refresh\<close> (lines 239-266): the body of the \<^verbatim>\<open>try\<close> first.\<close>

definition refresh_token_body :: "env \<Rightarrow> string \<Rightarrow> string \<Rightarrow> outcome" where
  "refresh_token_body env req_username token =
     (case jwt_decode env token (PStr ALGORITHM) of
        Inl e \<Rightarrow> (Inl (Raised e), [])
      | Inr payload \<Rightarrow>
         (let username = dict_get payload ''sub'' in
          if username = PNone
          then (Inl (HTTPException 400 ''Invalid refresh token'' []), [])
          else let access_token =
                 create_access_token env [(''sub'', username)]
                   (Some (timedelta_days ACCESS_TOKEN_EXPIRE_DAYS)) in
          if \<not> truthy access_token
          then (Inl (HTTPException 400 ''Token update error'' []), [])
          else if update_token_in_DB env req_username access_token
          then (Inr (token_body access_token),
                [update_request env req_username access_token])
          else (Inl (HTTPException 400 ''Token update in DB error'' []),
                [update_request env req_username access_token])))"

text \<open>
  The handler around it is \<^verbatim>\<open>except jwt.PyJWTError\<close> (line 265), where \<^verbatim>\<open>jwt\<close> is
  the module bound by \<^verbatim>\<open>from jose import jwt\<close> (line 12). python-jose's \<^verbatim>\<open>jwt\<close>
  module has no attribute of that name (\<^verbatim>\<open>PyJWTError\<close> is a class of the PyJWT
  package; jose's own class is the \<^verbatim>\<open>JWTError\<close> that line 233 names). Python
  evaluates the class expression of an \<^verbatim>\<open>except\<close> clause when an exception reaches the
  clause, so every exception that leaves the body, an \<^verbatim>\<open>HTTPException\<close> included, is
  replaced by the \<^verbatim>\<open>AttributeError\<close> of the failed lookup. A body that returns never
  reaches the clause.
\<close>

definition refresh_token :: "env \<Rightarrow> string \<Rightarrow> string \<Rightarrow> outcome" where
  "refresh_token env req_username token =
     (case refresh_token_body env req_username token of
        (Inl e, sent) \<Rightarrow> (Inl (Raised AttributeError), sent)
      | (Inr response, sent) \<Rightarrow> (Inr response, sent))"

text \<open>
  \<^verbatim>\<open>POST /logout\<close> (lines 269-303). The handler \<^verbatim>\<open>except HTTPException: raise\<close>
  changes nothing, and no other exception is caught.
\<close>

definition delete_request :: "env \<Rightarrow> string \<Rightarrow> string \<Rightarrow> request" where
  "delete_request env username token =
     DELETE (LOCAL_API_URL @ ''/token/delete'')
       (PDict [(''micro_name'', PDict [(''name'', PStr (service_name env))]),
               (''token_data'', PDict [(''login'', PStr username),
                                       (''jwt_token'', PStr token)])])"

definition logout :: "env \<Rightarrow> string \<Rightarrow> string \<Rightarrow> outcome" where
  "logout env req_username token =
     (case verify_token env req_username token of
        (Inl e, sent) \<Rightarrow> (Inl e, sent)
      | (Inr valid_response, sent) \<Rightarrow>
         (case method_get valid_response ''valid'' of
            Inl e \<Rightarrow> (Inl (Raised e), sent)
          | Inr valid \<Rightarrow>
             if \<not> truthy valid
             then (Inl (HTTPException 401 ''Invalid token'' []), sent)
             else let sent' = sent @ [delete_request env req_username token] in
               (case requests env (delete_request env req_username token) of
                  Inl e \<Rightarrow> (Inl (Raised e), sent')
                | Inr response \<Rightarrow>
                   if \<not> ok response
                   then (Inl (HTTPException 500
                                ''Failed to delete token from database'' []), sent')
                   else (Inr (PDict [(''message'', PStr ''Successfully logged out'')]),
                         sent'))))"


section \<open>Concrete environments\<close>

text \<open>
  A small deployment on which the endpoints can be evaluated: the clock reads \<open>t\<close>, the
  JWT library answers \<open>decoded\<close> for the token \<^verbatim>\<open>tok\<close> and rejects every other string,
  it encodes every claims dictionary as \<^verbatim>\<open>new\<close>, a password matches the hash
  \<^verbatim>\<open>hash:\<close> followed by itself, the data service answers every lookup with \<open>data\<close> and
  accepts writes and deletions when \<open>store_ok\<close>.
\<close>

definition scene :: "int \<Rightarrow> pyexc + pydict \<Rightarrow> pyval \<Rightarrow> bool \<Rightarrow> env" where
  "scene t decoded data store_ok =
     \<lparr> now = t,
       fromtimestamp_raises =
         (\<lambda>n. if 0 \<le> n \<and> n \<le> 253402300799 then None else Some ValueError),
       jwt_decode = (\<lambda>token algorithms. if token = ''tok'' then decoded else Inl JWTError),
       jwt_encode = (\<lambda>claims. Inr ''new''),
       pwd_verify = (\<lambda>plain hashed. Inr (hashed = PStr (''hash:'' @ plain))),
       requests =
         (\<lambda>call. case call of
                   GET url body \<Rightarrow>
                     Inr \<lparr> ok = True, json = Some (PDict [(''data'', data)]) \<rparr>
                 | POST url body \<Rightarrow> Inr \<lparr> ok = store_ok, json = None \<rparr>
                 | DELETE url body \<Rightarrow> Inr \<lparr> ok = store_ok, json = None \<rparr>),
       service_name = ''auth'' \<rparr>"

text \<open>The record the data service holds for alice, and the claims of her active token.\<close>

definition alice_record :: pyval where
  "alice_record =
     PDict [(''login'', PStr ''alice''), (''password'', PStr ''hash:correct''),
            (''agency_id'', PStr ''A7''), (''jwt_token'', PStr ''tok'')]"

definition alice_claims :: pydict where
  "alice_claims = [(''sub'', PStr ''alice''), (''ngy'', PStr ''A7''), (''exp'', PInt 2000)]"

text \<open>The record of a second user, whose stored token is the same string.\<close>

definition mallory_record :: pyval where
  "mallory_record =
     PDict [(''login'', PStr ''mallory''), (''password'', PStr ''hash:secret''),
            (''agency_id'', PStr ''B2''), (''jwt_token'', PStr ''tok'')]"

text \<open>
  python-jose is a dependency, not a file of the repository. Line 187 calls its
  \<^verbatim>\<open>jwt.decode\<close> without \<^verbatim>\<open>options\<close>, so the library's defaults apply
  (\<^verbatim>\<open>verify_exp\<close> on, no leeway): once the signature has verified, an \<^verbatim>\<open>exp\<close> claim
  earlier than the current second raises \<^verbatim>\<open>ExpiredSignatureError\<close>, a subclass of
  \<^verbatim>\<open>JWTError\<close>. \<open>jose_decoded utcnow claims\<close> is the answer of that call at the second
  \<open>utcnow\<close> for a well-signed token that carries \<open>claims\<close>, where \<^verbatim>\<open>exp\<close> is an integer
  or missing and the other claims are none of those the library validates.
\<close>

definition jose_decoded :: "int \<Rightarrow> pydict \<Rightarrow> pyexc + pydict" where
  "jose_decoded utcnow claims =
     (case dict_get claims ''exp'' of
        PInt exp_claim \<Rightarrow> if exp_claim < utcnow then Inl JWTError else Inr claims
      | other \<Rightarrow> Inr claims)"

text \<open>
  How a rejection of \<^verbatim>\<open>/login\<close> reads at the same point of \<^verbatim>\<open>/token/create\<close>:
  lines 125 and 130 against line 162, line 143 against line 174, line 149 against line 181.
\<close>

fun token_create_rejection :: "failure \<Rightarrow> failure" where
  "token_create_rejection (HTTPException status detail headers) =
     (if status = 401
      then HTTPException 401 ''Incorrect username or password''
             [(''WWW-Authenticate'', ''Bearer'')]
      else if detail = ''Failed to create access token''
      then HTTPException 400 ''Token creation error'' []
      else HTTPException 400 ''Token update in DB error'' [])"
| "token_create_rejection (Raised e) = Raised e"

section \<open>Facts about the helpers\<close>

text \<open>\<^verbatim>\<open>get_user\<close> returns \<^verbatim>\<open>None\<close> or a truthy value.\<close>

lemma get_user_truthy: "truthy (get_user env u) \<longleftrightarrow> get_user env u \<noteq> PNone"
  by (auto simp: get_user_def split: sum.splits option.splits)

text \<open>A token that does not decode is answered with 400 and no call to the data service.\<close>

lemma verify_token_decode_error:
  "jwt_decode env tok (PList [PStr ALGORITHM]) = Inl JWTError \<Longrightarrow>
   verify_token env u tok = (Inl (HTTPException 400 ''Invalid token format'' []), [])"
  by (simp add: verify_token_def verify_token_body_def)

text \<open>Verification makes at most one call, the lookup of the user.\<close>

lemma verify_token_sent:
  "snd (verify_token env u tok) = [] \<or> snd (verify_token env u tok) = [get_user_request env u]"
  by (auto simp: verify_token_def verify_token_body_def Let_def
           split: sum.splits failure.splits pyexc.splits)

text \<open>Whatever verification returns has \<^verbatim>\<open>valid\<close> set.\<close>

lemma verify_token_valid:
  "verify_token env u tok = (Inr v, sent) \<Longrightarrow> method_get v ''valid'' = Inr (PBool True)"
  by (auto simp: verify_token_def verify_token_body_def Let_def dict_get_def
           split: sum.splits failure.splits pyexc.splits if_splits)

section \<open>Token verification\<close>

text \<open>
  C1. A well-signed token whose expiry lies in the past is to be rejected by
  \<^verbatim>\<open>/token/verify\<close> with 401 "Token has expired", after a decode that succeeds. On the
  code the decode of line 187 runs with the library's default expiry validation: at the
  second 3000, alice's token with expiry 2000 is answered with 400 "Invalid token format"
  by the handler of line 233, and the expiry check of lines 203-208 is not reached. Had
  the decode returned the claims, that check would have answered 401.
\<close>

theorem verify_token_expired_invalid_format:
  "verify_token (scene 3000 (jose_decoded 3000 alice_claims) alice_record True)
     ''alice'' ''tok'' =
     (Inl (HTTPException 400 ''Invalid token format'' []), []) \<and>
   verify_token (scene 3000 (Inr alice_claims) alice_record True) ''alice'' ''tok'' =
     (Inl (HTTPException 401 ''Token has expired'' []), [])"
  by (simp add: scene_def jose_decoded_def alice_claims_def alice_record_def dict_get_def
        verify_token_def verify_token_body_def Let_def)

text \<open>
  The checks that follow a decode that returns claims, in their order: 400 when the
  subject is missing (or falsy), 400 when the expiry is missing (or falsy), 401 when the
  clock has reached the expiry, 400 when the agency is missing (or falsy), 404 when the
  data service has no record under the request's username, 401 when the stored token is
  not the presented string; and when all of them pass the answer is
  \<^verbatim>\<open>{valid: True, user_id: sub, agency_id: ngy}\<close>. Which tokens reach these checks is
  the decoder's decision.
\<close>

lemma verify_token_checks_in_order:
  assumes "jwt_decode env tok (PList [PStr ALGORITHM]) = Inr payload"
  shows
   "(\<not> truthy (dict_get payload ''sub'') \<longrightarrow>
       fst (verify_token env u tok) =
         Inl (HTTPException 400 ''Invalid token: missing username'' [])) \<and>
    (truthy (dict_get payload ''sub'') \<longrightarrow>
      (\<not> truthy (dict_get payload ''exp'') \<longrightarrow>
         fst (verify_token env u tok) =
           Inl (HTTPException 400 ''Invalid token: missing expiration'' [])) \<and>
      (truthy (dict_get payload ''exp'') \<and>
       fromtimestamp env (dict_get payload ''exp'') = Inr expires_at \<longrightarrow>
        (now env \<ge> expires_at \<longrightarrow>
           fst (verify_token env u tok) = Inl (HTTPException 401 ''Token has expired'' [])) \<and>
        (now env < expires_at \<longrightarrow>
          (\<not> truthy (dict_get payload ''ngy'') \<longrightarrow>
             fst (verify_token env u tok) =
               Inl (HTTPException 400 ''Invalid token: missing expiration'' [])) \<and>
          (truthy (dict_get payload ''ngy'') \<longrightarrow>
            (get_user env u = PNone \<longrightarrow>
               fst (verify_token env u tok) = Inl (HTTPException 404 ''User not found'' [])) \<and>
            (get_user env u = PDict r \<longrightarrow>
              (dict_get r ''jwt_token'' \<noteq> PStr tok \<longrightarrow>
                 fst (verify_token env u tok) =
                   Inl (HTTPException 401 ''Invalid token: does not match stored token'' [])) \<and>
              (dict_get r ''jwt_token'' = PStr tok \<longrightarrow>
                 fst (verify_token env u tok) =
                   Inr (PDict [(''valid'', PBool True),
                               (''user_id'', dict_get payload ''sub''),
                               (''agency_id'', dict_get payload ''ngy'')])))))))"
  using assms get_user_truthy [of env u]
  by (auto simp: verify_token_def verify_token_body_def Let_def)

text \<open>
  Each of these checks on the concrete deployment: a token without subject, one without
  expiry, alice's token at the second of its expiry, a token without agency, alice's
  token while the data service has no record, while it holds another token, and while it
  holds this one.
\<close>

lemma verify_token_checks_in_order_examples:
  "fst (verify_token (scene 1000 (Inr [(''ngy'', PStr ''A7''), (''exp'', PInt 2000)])
                        alice_record True) ''alice'' ''tok'') =
     Inl (HTTPException 400 ''Invalid token: missing username'' []) \<and>
   fst (verify_token (scene 1000 (Inr [(''sub'', PStr ''alice''), (''ngy'', PStr ''A7'')])
                        alice_record True) ''alice'' ''tok'') =
     Inl (HTTPException 400 ''Invalid token: missing expiration'' []) \<and>
   fst (verify_token (scene 2000 (Inr alice_claims) alice_record True) ''alice'' ''tok'') =
     Inl (HTTPException 401 ''Token has expired'' []) \<and>
   fst (verify_token (scene 1000 (Inr [(''sub'', PStr ''alice''), (''exp'', PInt 2000)])
                        alice_record True) ''alice'' ''tok'') =
     Inl (HTTPException 400 ''Invalid token: missing expiration'' []) \<and>
   fst (verify_token (scene 1000 (Inr alice_claims) PNone True) ''alice'' ''tok'') =
     Inl (HTTPException 404 ''User not found'' []) \<and>
   fst (verify_token (scene 1000 (Inr alice_claims)
                        (PDict [(''login'', PStr ''alice''), (''jwt_token'', PStr ''newer'')])
                        True) ''alice'' ''tok'') =
     Inl (HTTPException 401 ''Invalid token: does not match stored token'' []) \<and>
   fst (verify_token (scene 1000 (Inr alice_claims) alice_record True) ''alice'' ''tok'') =
     Inr (PDict [(''valid'', PBool True), (''user_id'', PStr ''alice''),
                 (''agency_id'', PStr ''A7'')])"
proof -
  note defs = scene_def alice_claims_def alice_record_def dict_get_def get_user_def
    get_user_request_def ALGORITHM_def
  have no_sub: "fst (verify_token (scene 1000 (Inr [(''ngy'', PStr ''A7''), (''exp'', PInt 2000)])
                        alice_record True) ''alice'' ''tok'') =
     Inl (HTTPException 400 ''Invalid token: missing username'' [])"
    using verify_token_checks_in_order
      [where env = "scene 1000 (Inr [(''ngy'', PStr ''A7''), (''exp'', PInt 2000)]) alice_record True"
         and tok = "''tok''" and payload = "[(''ngy'', PStr ''A7''), (''exp'', PInt 2000)]"
         and u = "''alice''"]
    by (simp add: defs)
  have no_exp: "fst (verify_token (scene 1000 (Inr [(''sub'', PStr ''alice''), (''ngy'', PStr ''A7'')])
                        alice_record True) ''alice'' ''tok'') =
     Inl (HTTPException 400 ''Invalid token: missing expiration'' [])"
    using verify_token_checks_in_order
      [where env = "scene 1000 (Inr [(''sub'', PStr ''alice''), (''ngy'', PStr ''A7'')]) alice_record True"
         and tok = "''tok''" and payload = "[(''sub'', PStr ''alice''), (''ngy'', PStr ''A7'')]"
         and u = "''alice''"]
    by (simp add: defs)
  have expired: "fst (verify_token (scene 2000 (Inr alice_claims) alice_record True) ''alice'' ''tok'') =
     Inl (HTTPException 401 ''Token has expired'' [])"
    using verify_token_checks_in_order
      [where env = "scene 2000 (Inr alice_claims) alice_record True"
         and tok = "''tok''" and payload = alice_claims and u = "''alice''"
         and expires_at = 2000]
    by (simp add: defs)
  have no_ngy: "fst (verify_token (scene 1000 (Inr [(''sub'', PStr ''alice''), (''exp'', PInt 2000)])
                        alice_record True) ''alice'' ''tok'') =
     Inl (HTTPException 400 ''Invalid token: missing expiration'' [])"
    using verify_token_checks_in_order
      [where env = "scene 1000 (Inr [(''sub'', PStr ''alice''), (''exp'', PInt 2000)]) alice_record True"
         and tok = "''tok''" and payload = "[(''sub'', PStr ''alice''), (''exp'', PInt 2000)]"
         and u = "''alice''" and expires_at = 2000]
    by (simp add: defs)
  have no_user: "fst (verify_token (scene 1000 (Inr alice_claims) PNone True) ''alice'' ''tok'') =
     Inl (HTTPException 404 ''User not found'' [])"
    using verify_token_checks_in_order
      [where env = "scene 1000 (Inr alice_claims) PNone True"
         and tok = "''tok''" and payload = alice_claims and u = "''alice''"
         and expires_at = 2000]
    by (simp add: defs)
  have superseded: "fst (verify_token (scene 1000 (Inr alice_claims)
                        (PDict [(''login'', PStr ''alice''), (''jwt_token'', PStr ''newer'')])
                        True) ''alice'' ''tok'') =
     Inl (HTTPException 401 ''Invalid token: does not match stored token'' [])"
    using verify_token_checks_in_order
      [where env = "scene 1000 (Inr alice_claims)
                      (PDict [(''login'', PStr ''alice''), (''jwt_token'', PStr ''newer'')]) True"
         and tok = "''tok''" and payload = alice_claims and u = "''alice''"
         and expires_at = 2000
         and r = "[(''login'', PStr ''alice''), (''jwt_token'', PStr ''newer'')]"]
    by (simp add: defs)
  have active: "fst (verify_token (scene 1000 (Inr alice_claims) alice_record True) ''alice'' ''tok'') =
     Inr (PDict [(''valid'', PBool True), (''user_id'', PStr ''alice''),
                 (''agency_id'', PStr ''A7'')])"
    using verify_token_checks_in_order
      [where env = "scene 1000 (Inr alice_claims) alice_record True"
         and tok = "''tok''" and payload = alice_claims and u = "''alice''"
         and expires_at = 2000
         and r = "[(''login'', PStr ''alice''), (''password'', PStr ''hash:correct''),
                   (''agency_id'', PStr ''A7''), (''jwt_token'', PStr ''tok'')]"]
    by (simp add: defs)
  from no_sub no_exp expired no_ngy no_user superseded active show ?thesis
    by (intro conjI)
qed

text \<open>
  With the library's expiry validation, a token whose integer expiry is earlier than the
  current second never reaches the checks of the handler: whatever its other claims and
  whatever the data service holds, the answer is 400 "Invalid token format", and no call
  is made.
\<close>

lemma verify_token_expired_rejected_by_decoder:
  assumes "jwt_decode env tok (PList [PStr ALGORITHM]) = jose_decoded (now env) claims"
    and "dict_get claims ''exp'' = PInt expires_at"
    and "expires_at < now env"
  shows "verify_token env u tok = (Inl (HTTPException 400 ''Invalid token format'' []), [])"
  using assms
  by (simp add: jose_decoded_def verify_token_def verify_token_body_def)

text \<open>
  C2. \<^verbatim>\<open>/token/verify\<close> is to perform its checks in the stated order with the stated
  rejections, among them Unauthorized whenever the clock has reached the expiry. On the
  code that rejection is given only in the second of the expiry itself: alice's
  well-signed token with expiry 2000, subject and agency, stored as her active token, is
  answered with 400 "Invalid token format" at the second 2001, because the decode of
  line 187 raises before the check of lines 203-208 is reached, and with 401 "Token has
  expired" at the second 2000.
\<close>

theorem verify_token_expired_by_a_second:
  "verify_token (scene 2001 (jose_decoded 2001 alice_claims) alice_record True)
     ''alice'' ''tok'' =
     (Inl (HTTPException 400 ''Invalid token format'' []), []) \<and>
   verify_token (scene 2000 (jose_decoded 2000 alice_claims) alice_record True)
     ''alice'' ''tok'' =
     (Inl (HTTPException 401 ''Token has expired'' []), [])"
  by (simp add: scene_def jose_decoded_def alice_claims_def alice_record_def dict_get_def
        verify_token_def verify_token_body_def Let_def)

text \<open>
  C8. Every rejection is to carry a reason of its own; in particular a missing expiry and
  a missing agency are to read differently in \<^verbatim>\<open>/token/verify\<close>. On the code line 214
  repeats the detail of line 201: a token without expiry and a token without agency
  (which has an expiry) are both answered with "Invalid token: missing expiration".
\<close>

theorem verify_token_shared_reason:
  "fst (verify_token (scene 1000 (Inr [(''sub'', PStr ''alice''), (''ngy'', PStr ''A7'')])
                        alice_record True) ''alice'' ''tok'') =
     Inl (HTTPException 400 ''Invalid token: missing expiration'' []) \<and>
   fst (verify_token (scene 1000 (Inr [(''sub'', PStr ''alice''), (''exp'', PInt 2000)])
                        alice_record True) ''alice'' ''tok'') =
     Inl (HTTPException 400 ''Invalid token: missing expiration'' [])"
  by (simp add: scene_def dict_get_def verify_token_def verify_token_body_def Let_def)

text \<open>
  C9. \<^verbatim>\<open>/token/verify\<close> never compares the request's username with the subject of
  the token: whatever the two are, a token that decodes, carries subject, expiry and
  agency, has not expired and is the string stored under the request's username is
  answered with \<^verbatim>\<open>valid\<close>, and the \<^verbatim>\<open>user_id\<close> and \<^verbatim>\<open>agency_id\<close> of the answer
  are the token's claims. The only call made is the lookup of the request's username.
\<close>

theorem verify_token_ignores_request_username:
  assumes "jwt_decode env tok (PList [PStr ALGORITHM]) = Inr payload"
    and "truthy (dict_get payload ''sub'')"
    and "truthy (dict_get payload ''exp'')"
    and "fromtimestamp env (dict_get payload ''exp'') = Inr expires_at"
    and "now env < expires_at"
    and "truthy (dict_get payload ''ngy'')"
    and "get_user env u = PDict r"
    and "dict_get r ''jwt_token'' = PStr tok"
  shows "verify_token env u tok =
           (Inr (PDict [(''valid'', PBool True), (''user_id'', dict_get payload ''sub''),
                        (''agency_id'', dict_get payload ''ngy'')]),
            [get_user_request env u])"
  using assms get_user_truthy [of env u]
  by (simp add: verify_token_def verify_token_body_def Let_def)

text \<open>
  C9 at a request for mallory that presents alice's token, while the data service holds
  that string under mallory: the answer names alice and her agency.
\<close>

theorem verify_token_ignores_request_username_witness:
  "''mallory'' \<noteq> ''alice'' \<and>
   verify_token (scene 1000 (Inr alice_claims) mallory_record True) ''mallory'' ''tok'' =
     (Inr (PDict [(''valid'', PBool True), (''user_id'', PStr ''alice''),
                  (''agency_id'', PStr ''A7'')]),
      [GET ''http://web:8000/data/mallory'' (PDict [(''name'', PStr ''auth'')])])"
  using verify_token_ignores_request_username
    [where env = "scene 1000 (Inr alice_claims) mallory_record True"
       and tok = "''tok''" and payload = alice_claims and u = "''mallory''"
       and expires_at = 2000
       and r = "[(''login'', PStr ''mallory''), (''password'', PStr ''hash:secret''),
                 (''agency_id'', PStr ''B2''), (''jwt_token'', PStr ''tok'')]"]
  by (simp add: scene_def alice_claims_def mallory_record_def dict_get_def get_user_def
        get_user_request_def ALGORITHM_def LOCAL_API_URL_def)

section \<open>Token refresh\<close>

text \<open>
  C4. A refresh token that does not decode is to be rejected by \<^verbatim>\<open>/token/refresh\<close>
  with 400 "Invalid refresh token", and no exception of the JWT library is to leave the
  handler. On the code the clause of line 265 names \<^verbatim>\<open>jwt.PyJWTError\<close>, which
  python-jose's module does not have: for the string \<^verbatim>\<open>garbage\<close> the decode raises
  \<^verbatim>\<open>JWTError\<close> and the request ends in an unhandled \<^verbatim>\<open>AttributeError\<close>.
\<close>

theorem refresh_token_decode_error_unhandled:
  "refresh_token (scene 1000 (Inr alice_claims) alice_record True) ''alice'' ''garbage'' =
     (Inl (Raised AttributeError), [])"
  by (simp add: scene_def refresh_token_def refresh_token_body_def)

text \<open>
  C7, as the code has it. For a refresh token that decodes and carries a subject: when
  \<^verbatim>\<open>/token/refresh\<close> returns a token, that token is the encoding of exactly the subject
  and an expiry seven days ahead, without the agency; and when the data service does not
  accept the new token, no token is returned, the statement that reports it (line 262)
  raising 400 "Token update in DB error".
\<close>

theorem refresh_token_subject_only:
  assumes "jwt_decode env tok (PStr ALGORITHM) = Inr payload"
    and "dict_get payload ''sub'' \<noteq> PNone"
  shows
   "(\<forall>body sent. refresh_token env u tok = (Inr body, sent) \<longrightarrow>
       (\<exists>new. jwt_encode env
                 [(''sub'', dict_get payload ''sub''),
                  (''exp'', PDateTime (now env + timedelta_days ACCESS_TOKEN_EXPIRE_DAYS))]
               = Inr new \<and>
              body = PDict [(''access_token'', PStr new), (''token_type'', PStr ''bearer'')])) \<and>
    (\<forall>new. jwt_encode env
              [(''sub'', dict_get payload ''sub''),
               (''exp'', PDateTime (now env + timedelta_days ACCESS_TOKEN_EXPIRE_DAYS))]
            = Inr new \<and> new \<noteq> [] \<and> \<not> update_token_in_DB env u (PStr new) \<longrightarrow>
       fst (refresh_token_body env u tok) =
         Inl (HTTPException 400 ''Token update in DB error'' []) \<and>
       (\<exists>f. fst (refresh_token env u tok) = Inl f))"
  using assms
  by (auto simp: refresh_token_def refresh_token_body_def create_access_token_def Let_def
        token_body_def timedelta_days_def ACCESS_TOKEN_EXPIRE_DAYS_def
        split: sum.splits if_splits)

text \<open>
  C7 on the concrete deployment: the token returned for alice's refresh token is the
  encoding of her subject and the expiry 1000 + 604800; and with a data service that
  refuses the write, the body raises the 400 and the endpoint returns nothing.
\<close>

theorem refresh_token_subject_only_witness:
  "jwt_encode (scene 1000 (Inr alice_claims) alice_record True)
     [(''sub'', PStr ''alice''), (''exp'', PDateTime 605800)] = Inr ''new'' \<and>
   fst (refresh_token (scene 1000 (Inr alice_claims) alice_record True) ''alice'' ''tok'') =
     Inr (PDict [(''access_token'', PStr ''new''), (''token_type'', PStr ''bearer'')]) \<and>
   fst (refresh_token_body (scene 1000 (Inr alice_claims) alice_record False)
          ''alice'' ''tok'') =
     Inl (HTTPException 400 ''Token update in DB error'' []) \<and>
   (\<exists>f. fst (refresh_token (scene 1000 (Inr alice_claims) alice_record False)
               ''alice'' ''tok'') = Inl f)"
proof -
  note defs = scene_def alice_claims_def dict_get_def ALGORITHM_def timedelta_days_def
    ACCESS_TOKEN_EXPIRE_DAYS_def update_token_in_DB_def update_request_def
  have accepted:
    "fst (refresh_token (scene 1000 (Inr alice_claims) alice_record True) ''alice'' ''tok'') =
       Inr (PDict [(''access_token'', PStr ''new''), (''token_type'', PStr ''bearer'')])"
    using refresh_token_subject_only
      [where env = "scene 1000 (Inr alice_claims) alice_record True"
         and tok = "''tok''" and payload = alice_claims and u = "''alice''"]
    by (cases "refresh_token (scene 1000 (Inr alice_claims) alice_record True) ''alice'' ''tok''")
       (auto simp: defs refresh_token_def refresh_token_body_def create_access_token_def
          Let_def token_body_def)
  have refused:
    "fst (refresh_token_body (scene 1000 (Inr alice_claims) alice_record False)
            ''alice'' ''tok'') =
       Inl (HTTPException 400 ''Token update in DB error'' []) \<and>
     (\<exists>f. fst (refresh_token (scene 1000 (Inr alice_claims) alice_record False)
                 ''alice'' ''tok'') = Inl f)"
    using refresh_token_subject_only
      [where env = "scene 1000 (Inr alice_claims) alice_record False"
         and tok = "''tok''" and payload = alice_claims and u = "''alice''"]
    by (simp add: defs)
  have encoded:
    "jwt_encode (scene 1000 (Inr alice_claims) alice_record True)
       [(''sub'', PStr ''alice''), (''exp'', PDateTime 605800)] = Inr ''new''"
    by (simp add: scene_def)
  from encoded accepted refused show ?thesis by simp
qed

text \<open>
  C7 as the specification words it promises an internal error (500) when the new token
  cannot be persisted. With a data service that refuses the write, the body raises 400,
  and what leaves the endpoint is the \<^verbatim>\<open>AttributeError\<close> of the clause of line 265.
\<close>

theorem refresh_token_store_failure_counterexample:
  "fst (refresh_token_body (scene 1000 (Inr alice_claims) alice_record False)
          ''alice'' ''tok'') =
     Inl (HTTPException 400 ''Token update in DB error'' []) \<and>
   fst (refresh_token (scene 1000 (Inr alice_claims) alice_record False) ''alice'' ''tok'') =
     Inl (Raised AttributeError)"
  by (simp add: scene_def alice_claims_def dict_get_def refresh_token_def
        refresh_token_body_def create_access_token_def update_token_in_DB_def
        update_request_def Let_def)

text \<open>
  C10. \<^verbatim>\<open>/token/refresh\<close> never looks the active token up before minting: for a
  refresh token that decodes and carries a subject, when the encoder returns a token and
  the data service accepts the write, the endpoint succeeds; its only call is the write of
  the new token, whose subject is the one of the presented token, under the username of
  the request, which is compared with nothing.
\<close>

theorem refresh_token_skips_store_check:
  assumes "jwt_decode env tok (PStr ALGORITHM) = Inr payload"
    and "dict_get payload ''sub'' \<noteq> PNone"
    and "jwt_encode env
           [(''sub'', dict_get payload ''sub''),
            (''exp'', PDateTime (now env + timedelta_days ACCESS_TOKEN_EXPIRE_DAYS))]
         = Inr new"
    and "new \<noteq> []"
    and "requests env (update_request env u (PStr new)) = Inr response"
    and "ok response"
  shows "refresh_token env u tok =
           (Inr (PDict [(''access_token'', PStr new), (''token_type'', PStr ''bearer'')]),
            [POST (LOCAL_API_URL @ ''/token/update'')
               (PDict [(''micro_name'', PDict [(''name'', PStr (service_name env))]),
                       (''token_data'', PDict [(''login'', PStr u),
                                               (''jwt_token'', PStr new)])])])"
  using assms
  by (simp add: refresh_token_def refresh_token_body_def create_access_token_def Let_def
        update_token_in_DB_def token_body_def update_request_def)

text \<open>
  C10 at a request for mallory that presents alice's token, while the data service holds
  no record at all (the token has been deleted): the refresh succeeds and the new token
  is written under mallory.
\<close>

theorem refresh_token_skips_store_check_witness:
  "''mallory'' \<noteq> ''alice'' \<and>
   refresh_token (scene 1000 (Inr alice_claims) PNone True) ''mallory'' ''tok'' =
     (Inr (PDict [(''access_token'', PStr ''new''), (''token_type'', PStr ''bearer'')]),
      [POST ''http://web:8000/token/update''
         (PDict [(''micro_name'', PDict [(''name'', PStr ''auth'')]),
                 (''token_data'', PDict [(''login'', PStr ''mallory''),
                                         (''jwt_token'', PStr ''new'')])])])"
  using refresh_token_skips_store_check
    [where env = "scene 1000 (Inr alice_claims) PNone True"
       and tok = "''tok''" and payload = alice_claims and u = "''mallory''"
       and new = "''new''" and response = "\<lparr> ok = True, json = None \<rparr>"]
  by (simp add: scene_def alice_claims_def dict_get_def ALGORITHM_def LOCAL_API_URL_def
        update_request_def)

section \<open>Logout\<close>

text \<open>
  C5, as the code has it. \<^verbatim>\<open>/logout\<close> runs the whole of \<^verbatim>\<open>/token/verify\<close> first.
  When that raises, logout raises the same exception, with the status and reason of the
  verification, and the deletion is not called. When it passes, the deletion is called,
  once and last: an exception of the call is not caught, a response that is not ok gives
  500 "Failed to delete token from database", and an ok response the success message.
\<close>

theorem logout_propagates_verify:
  "(\<forall>f sent. verify_token env u tok = (Inl f, sent) \<longrightarrow>
      logout env u tok = (Inl f, sent) \<and> delete_request env u tok \<notin> set sent) \<and>
   (\<forall>v sent. verify_token env u tok = (Inr v, sent) \<longrightarrow>
      snd (logout env u tok) = sent @ [delete_request env u tok] \<and>
      delete_request env u tok \<notin> set sent \<and>
      (\<forall>e. requests env (delete_request env u tok) = Inl e \<longrightarrow>
           fst (logout env u tok) = Inl (Raised e)) \<and>
      (\<forall>response. requests env (delete_request env u tok) = Inr response \<longrightarrow>
           fst (logout env u tok) =
             (if ok response
              then Inr (PDict [(''message'', PStr ''Successfully logged out'')])
              else Inl (HTTPException 500 ''Failed to delete token from database'' []))))"
proof (intro conjI allI impI)
  fix f sent
  assume failed: "verify_token env u tok = (Inl f, sent)"
  show "logout env u tok = (Inl f, sent)"
    using failed by (simp add: logout_def)
  show "delete_request env u tok \<notin> set sent"
    using verify_token_sent [of env u tok] failed
    by (auto simp: delete_request_def get_user_request_def)
next
  fix v sent
  assume passed: "verify_token env u tok = (Inr v, sent)"
  note valid = verify_token_valid [OF passed]
  show "snd (logout env u tok) = sent @ [delete_request env u tok]"
    using passed valid by (simp add: logout_def Let_def split: sum.splits)
  show "delete_request env u tok \<notin> set sent"
    using verify_token_sent [of env u tok] passed
    by (auto simp: delete_request_def get_user_request_def)
  {
    fix e
    assume "requests env (delete_request env u tok) = Inl e"
    then show "fst (logout env u tok) = Inl (Raised e)"
      using passed valid by (simp add: logout_def Let_def)
  }
  {
    fix response
    assume "requests env (delete_request env u tok) = Inr response"
    then show "fst (logout env u tok) =
             (if ok response
              then Inr (PDict [(''message'', PStr ''Successfully logged out'')])
              else Inl (HTTPException 500 ''Failed to delete token from database'' []))"
      using passed valid by (simp add: logout_def Let_def)
  }
qed

text \<open>
  C5 on the concrete deployment: a superseded token is rejected with the 401 of the
  verification and nothing is deleted; the active token is deleted; a data service that
  refuses the deletion gives 500.
\<close>

theorem logout_propagates_verify_witness:
  "logout (scene 1000 (Inr alice_claims)
             (PDict [(''login'', PStr ''alice''), (''jwt_token'', PStr ''newer'')]) True)
          ''alice'' ''tok'' =
     (Inl (HTTPException 401 ''Invalid token: does not match stored token'' []),
      [GET ''http://web:8000/data/alice'' (PDict [(''name'', PStr ''auth'')])]) \<and>
   logout (scene 1000 (Inr alice_claims) alice_record True) ''alice'' ''tok'' =
     (Inr (PDict [(''message'', PStr ''Successfully logged out'')]),
      [GET ''http://web:8000/data/alice'' (PDict [(''name'', PStr ''auth'')]),
       DELETE ''http://web:8000/token/delete''
         (PDict [(''micro_name'', PDict [(''name'', PStr ''auth'')]),
                 (''token_data'', PDict [(''login'', PStr ''alice''),
                                         (''jwt_token'', PStr ''tok'')])])]) \<and>
   fst (logout (scene 1000 (Inr alice_claims) alice_record False) ''alice'' ''tok'') =
     Inl (HTTPException 500 ''Failed to delete token from database'' [])"
proof -
  note defs = scene_def alice_claims_def alice_record_def dict_get_def get_user_def
    get_user_request_def ALGORITHM_def LOCAL_API_URL_def verify_token_def
    verify_token_body_def delete_request_def Let_def
  have superseded:
    "logout (scene 1000 (Inr alice_claims)
               (PDict [(''login'', PStr ''alice''), (''jwt_token'', PStr ''newer'')]) True)
            ''alice'' ''tok'' =
       (Inl (HTTPException 401 ''Invalid token: does not match stored token'' []),
        [GET ''http://web:8000/data/alice'' (PDict [(''name'', PStr ''auth'')])])"
    using logout_propagates_verify
      [where env = "scene 1000 (Inr alice_claims)
                      (PDict [(''login'', PStr ''alice''), (''jwt_token'', PStr ''newer'')]) True"
         and u = "''alice''" and tok = "''tok''"]
    by (simp add: defs)
  have active:
    "logout (scene 1000 (Inr alice_claims) alice_record True) ''alice'' ''tok'' =
       (Inr (PDict [(''message'', PStr ''Successfully logged out'')]),
        [GET ''http://web:8000/data/alice'' (PDict [(''name'', PStr ''auth'')]),
         DELETE ''http://web:8000/token/delete''
           (PDict [(''micro_name'', PDict [(''name'', PStr ''auth'')]),
                   (''token_data'', PDict [(''login'', PStr ''alice''),
                                           (''jwt_token'', PStr ''tok'')])])])"
    using logout_propagates_verify
      [where env = "scene 1000 (Inr alice_claims) alice_record True"
         and u = "''alice''" and tok = "''tok''"]
    by (cases "logout (scene 1000 (Inr alice_claims) alice_record True) ''alice'' ''tok''")
       (simp add: defs)
  have refused:
    "fst (logout (scene 1000 (Inr alice_claims) alice_record False) ''alice'' ''tok'') =
       Inl (HTTPException 500 ''Failed to delete token from database'' [])"
    using logout_propagates_verify
      [where env = "scene 1000 (Inr alice_claims) alice_record False"
         and u = "''alice''" and tok = "''tok''"]
    by (simp add: defs)
  from superseded active refused show ?thesis by simp
qed

text \<open>
  C5 as the specification words it promises 401 for every failed verification. For a
  user the data service does not know, logout answers with the 404 of the verification.
\<close>

theorem logout_not_found_counterexample:
  "logout (scene 1000 (Inr alice_claims) PNone True) ''alice'' ''tok'' =
     (Inl (HTTPException 404 ''User not found'' []),
      [GET ''http://web:8000/data/alice'' (PDict [(''name'', PStr ''auth'')])])"
  by (simp add: scene_def alice_claims_def dict_get_def get_user_def get_user_request_def
        LOCAL_API_URL_def verify_token_def verify_token_body_def logout_def Let_def)

section \<open>The two login endpoints\<close>

text \<open>
  C6, as the code has it. \<^verbatim>\<open>/token/create\<close> and \<^verbatim>\<open>/login\<close> succeed on the same
  inputs, with the same body and the same calls to the data service, and fail on the same
  inputs; where \<^verbatim>\<open>/login\<close> rejects, \<^verbatim>\<open>/token/create\<close> rejects with its own status and
  reason: 401 "Incorrect username or password" with a \<^verbatim>\<open>WWW-Authenticate\<close> header for both
  401 of \<^verbatim>\<open>/login\<close>, 400 "Token creation error" for 500 "Failed to create access token",
  400 "Token update in DB error" for 500 "Failed to update token in database". An
  exception that no handler catches is the same in both.
\<close>

theorem token_create_mirrors_login:
  "login_for_access_token env u p =
     (case login env u p of
        (Inl f, sent) \<Rightarrow> (Inl (token_create_rejection f), sent)
      | (Inr body, sent) \<Rightarrow> (Inr body, sent))"
  by (simp add: login_def login_for_access_token_def Let_def split: sum.splits)

text \<open>C6 for alice with a wrong password and with the right one.\<close>

theorem token_create_mirrors_login_witness:
  "login_for_access_token (scene 1000 (Inr alice_claims) alice_record True)
     ''alice'' ''wrong'' =
     (Inl (HTTPException 401 ''Incorrect username or password''
             [(''WWW-Authenticate'', ''Bearer'')]),
      [GET ''http://web:8000/data/alice'' (PDict [(''name'', PStr ''auth'')])]) \<and>
   fst (login_for_access_token (scene 1000 (Inr alice_claims) alice_record True)
          ''alice'' ''correct'') =
     Inr (PDict [(''access_token'', PStr ''new''), (''token_type'', PStr ''bearer'')])"
  using token_create_mirrors_login
      [of "scene 1000 (Inr alice_claims) alice_record True" "''alice''" "''wrong''"]
    token_create_mirrors_login
      [of "scene 1000 (Inr alice_claims) alice_record True" "''alice''" "''correct''"]
  by (simp add: scene_def alice_record_def login_def login_claims_def verify_password_def
        get_user_def get_user_request_def dict_get_def create_access_token_def
        update_token_in_DB_def update_request_def token_body_def Let_def LOCAL_API_URL_def)

text \<open>
  C6 as the specification words it promises the same status codes. When the data
  service refuses the write, \<^verbatim>\<open>/login\<close> answers 500 and \<^verbatim>\<open>/token/create\<close> 400.
\<close>

theorem login_token_create_differ_counterexample:
  "fst (login (scene 1000 (Inr alice_claims) alice_record False) ''alice'' ''correct'') =
     Inl (HTTPException 500 ''Failed to update token in database'' []) \<and>
   fst (login_for_access_token (scene 1000 (Inr alice_claims) alice_record False)
          ''alice'' ''correct'') =
     Inl (HTTPException 400 ''Token update in DB error'' [])"
  by (simp add: scene_def alice_record_def login_def login_for_access_token_def
        login_claims_def verify_password_def get_user_def get_user_request_def dict_get_def
        create_access_token_def update_token_in_DB_def update_request_def Let_def)

section \<open>The codec\<close>

text \<open>
  C3, the round trip of decoding an encoded claims dictionary, is a property of
  python-jose's \<^verbatim>\<open>jwt.encode\<close> and \<^verbatim>\<open>jwt.decode\<close>. Both are parameters of the
  environment, and \<^verbatim>\<open>app.py\<close> holds no code that relates them, so nothing is proved
  about it here.
\<close>

end
